theory Spec2Isabelle
  imports Complex_Main
begin

section \<open>Data model (app/models.py, app/schemas.py)\<close>

text \<open>
  The two string enumerations of \<^verbatim>\<open>models.py\<close> (\<^verbatim>\<open>schemas.py\<close> repeats them with the
  same members). The status column and the two status columns of the audit table are
  \<^verbatim>\<open>String\<close> columns that only ever receive members of \<^verbatim>\<open>RequestStatusEnum\<close>.
\<close>

datatype RiskProfileEnum = prudente | equilibrato | dinamico

datatype RequestStatusEnum = pending | in_review | completed | cancelled

text \<open>Table \<^verbatim>\<open>users\<close>: the columns the request router reads.\<close>

record User =
  u_id :: int
  u_email :: string
  u_role :: string

text \<open>
  Table \<^verbatim>\<open>consultation_requests\<close>. Amounts are \<^verbatim>\<open>Float\<close> columns on which no arithmetic
  is done; they are only compared with zero, and are modelled as reals. Timestamps are
  instants of \<^verbatim>\<open>datetime.utcnow\<close>, modelled as natural numbers.
\<close>

record ConsultationRequest =
  r_id :: int
  r_user_id :: int
  goal :: string
  amount :: real
  monthly_contribution :: "real option"
  risk_profile :: RiskProfileEnum
  time_horizon_years :: int
  r_notes :: "string option"
  status :: RequestStatusEnum
  created_at :: nat
  updated_at :: nat

text \<open>Table \<^verbatim>\<open>consultation_request_status_logs\<close>, the audit trail.\<close>

record ConsultationRequestStatusLog =
  l_id :: int
  request_id :: int
  changed_by_user_id :: int
  old_status :: "RequestStatusEnum option"
  new_status :: RequestStatusEnum
  changed_at :: nat

text \<open>
  The database: each table is the list of its rows in insertion order, so the last row
  of a table is the one written most recently.
\<close>

record Db =
  users :: "User list"
  consultation_requests :: "ConsultationRequest list"
  status_logs :: "ConsultationRequestStatusLog list"

definition empty_db :: "User list \<Rightarrow> Db" where
  "empty_db us = \<lparr>users = us, consultation_requests = [], status_logs = []\<rparr>"

text \<open>
  Errors that leave a handler: \<^verbatim>\<open>HTTPException(status_code=...)\<close>, the 422 response
  FastAPI gives when Pydantic rejects the input, and the \<^verbatim>\<open>IntegrityError\<close> of a failed
  flush, which nothing catches (a 500 response; the session is closed without commit).
\<close>

datatype error = HTTPException nat | RequestValidationError | IntegrityError

text \<open>
  An \<^verbatim>\<open>Integer\<close> primary key of SQLite without \<^verbatim>\<open>AUTOINCREMENT\<close>: a new row gets the
  largest key of the table plus one, and 1 in an empty table.
\<close>

definition next_id :: "int list \<Rightarrow> int" where
  "next_id ids = fold max ids 0 + 1"

text \<open>
  The values SQLite stores as \<^verbatim>\<open>INTEGER\<close>: signed 64-bit. The path parameter
  \<^verbatim>\<open>request_id: int\<close> is a Python integer of any size, and the handlers bind it into
  their queries unchecked; for a value outside this range the driver raises
  \<^verbatim>\<open>OverflowError\<close> while binding, before any row is read, and nothing catches it. The
  handlers below describe the calls whose \<^verbatim>\<open>request_id\<close> is in the range, and a statement
  about a key that need not be a stored one assumes so.
\<close>

definition sqlite_integer :: "int \<Rightarrow> bool" where
  "sqlite_integer i \<longleftrightarrow> - (2 ^ 63) \<le> i \<and> i < 2 ^ 63"

text \<open>\<^verbatim>\<open>UPDATE ... WHERE id = :pk\<close>, the statement a flush emits for a changed row.\<close>

definition update_row :: "int \<Rightarrow> (ConsultationRequest \<Rightarrow> ConsultationRequest)
    \<Rightarrow> ConsultationRequest list \<Rightarrow> ConsultationRequest list" where
  "update_row pk f rows = map (\<lambda>r. if r_id r = pk then f r else r) rows"

text \<open>
  Writing \<^verbatim>\<open>req.status\<close>: the unit of work emits an UPDATE, and with it the
  \<^verbatim>\<open>onupdate\<close> default of \<^verbatim>\<open>updated_at\<close>, only when the new value differs from the loaded
  one.
\<close>

definition set_status :: "RequestStatusEnum \<Rightarrow> nat \<Rightarrow> ConsultationRequest \<Rightarrow> ConsultationRequest" where
  "set_status s now r = (if status r = s then r else r\<lparr>status := s, updated_at := now\<rparr>)"

text \<open>
  \<^verbatim>\<open>ORDER BY column DESC\<close> on a timestamp: later instants first, and rows of the same
  instant in the order of the table, which is the order of their keys.
\<close>

definition order_by_desc :: "('a \<Rightarrow> nat) \<Rightarrow> 'a list \<Rightarrow> 'a list" where
  "order_by_desc column rows = sort_key (\<lambda>r. - int (column r)) rows"

section \<open>Strings\<close>

text \<open>\<^verbatim>\<open>str.strip()\<close>: the characters below 256 for which \<^verbatim>\<open>str.isspace\<close> holds.\<close>

definition is_space :: "char \<Rightarrow> bool" where
  "is_space c = ((of_char c :: nat) \<in> {9, 10, 11, 12, 13, 28, 29, 30, 31, 32, 133, 160})"

definition strip :: "string \<Rightarrow> string" where
  "strip s = rev (dropWhile is_space (rev (dropWhile is_space s)))"

text \<open>
  \<^verbatim>\<open>column.ilike(pattern)\<close> is rendered for SQLite as
  \<^verbatim>\<open>lower(column) LIKE lower(pattern)\<close>: \<^verbatim>\<open>%\<close> stands for any run of characters,
  \<^verbatim>\<open>_\<close> for any one character, and \<^verbatim>\<open>lower\<close> folds the ASCII letters.
\<close>

definition lower :: "char \<Rightarrow> char" where
  "lower c =
     (case map_of (zip ''ABCDEFGHIJKLMNOPQRSTUVWXYZ'' ''abcdefghijklmnopqrstuvwxyz'') c of
        None \<Rightarrow> c
      | Some d \<Rightarrow> d)"

fun like :: "string \<Rightarrow> string \<Rightarrow> bool" where
  "like [] [] = True"
| "like [] (c # cs) = False"
| "like (p # ps) [] = (p = CHR ''%'' \<and> like ps [])"
| "like (p # ps) (c # cs) =
     (if p = CHR ''%'' then like ps (c # cs) \<or> like (p # ps) cs
      else (p = CHR ''_'' \<or> p = c) \<and> like ps cs)"

definition ilike :: "string \<Rightarrow> string \<Rightarrow> bool" where
  "ilike column pattern = like (map lower pattern) (map lower column)"

text \<open>A nullable column: \<^verbatim>\<open>NULL LIKE ...\<close> is NULL, which \<^verbatim>\<open>OR\<close> and \<^verbatim>\<open>WHERE\<close> treat as false.\<close>

definition ilike_opt :: "string option \<Rightarrow> string \<Rightarrow> bool" where
  "ilike_opt column pattern = (case column of None \<Rightarrow> False | Some s \<Rightarrow> ilike s pattern)"

section \<open>Input and output schemas (app/schemas.py)\<close>

text \<open>
  The JSON body of \<^verbatim>\<open>POST /requests\<close> before validation: the risk profile is still a
  string.
\<close>

record RawConsultationRequestCreate =
  raw_goal :: string
  raw_amount :: real
  raw_monthly_contribution :: "real option"
  raw_risk_profile :: string
  raw_time_horizon_years :: int
  raw_notes :: "string option"

record ConsultationRequestCreate =
  p_goal :: string
  p_amount :: real
  p_monthly_contribution :: "real option"
  p_risk_profile :: RiskProfileEnum
  p_time_horizon_years :: int
  p_notes :: "string option"

definition parse_RiskProfile :: "string \<Rightarrow> RiskProfileEnum option" where
  "parse_RiskProfile s =
     (if s = ''prudente'' then Some prudente
      else if s = ''equilibrato'' then Some equilibrato
      else if s = ''dinamico'' then Some dinamico
      else None)"

text \<open>
  The field constraints of \<^verbatim>\<open>ConsultationRequestBase\<close>, which
  \<^verbatim>\<open>ConsultationRequestCreate\<close> inherits unchanged: \<^verbatim>\<open>goal\<close> is a required string with
  no length bound, \<^verbatim>\<open>amount\<close> has \<^verbatim>\<open>ge=0\<close>, \<^verbatim>\<open>monthly_contribution\<close> has \<^verbatim>\<open>ge=0\<close> when
  given, \<^verbatim>\<open>time_horizon_years\<close> has \<^verbatim>\<open>ge=1, le=60\<close>.
\<close>

definition validate_ConsultationRequestCreate ::
    "RawConsultationRequestCreate \<Rightarrow> error + ConsultationRequestCreate" where
  "validate_ConsultationRequestCreate raw =
     (case parse_RiskProfile (raw_risk_profile raw) of
        None \<Rightarrow> Inl RequestValidationError
      | Some rp \<Rightarrow>
          if \<not> (0 \<le> raw_amount raw) then Inl RequestValidationError
          else if (case raw_monthly_contribution raw of None \<Rightarrow> False | Some m \<Rightarrow> \<not> (0 \<le> m))
            then Inl RequestValidationError
          else if \<not> (1 \<le> raw_time_horizon_years raw \<and> raw_time_horizon_years raw \<le> 60)
            then Inl RequestValidationError
          else Inr \<lparr>p_goal = raw_goal raw, p_amount = raw_amount raw,
                    p_monthly_contribution = raw_monthly_contribution raw,
                    p_risk_profile = rp,
                    p_time_horizon_years = raw_time_horizon_years raw,
                    p_notes = raw_notes raw\<rparr>)"

record ConsultationRequestOut =
  o_id :: int
  o_user_id :: int
  o_user_email :: "string option"
  o_user_role :: "string option"
  o_goal :: string
  o_amount :: real
  o_monthly_contribution :: "real option"
  o_risk_profile :: RiskProfileEnum
  o_time_horizon_years :: int
  o_notes :: "string option"
  o_status :: RequestStatusEnum
  o_created_at :: nat
  o_updated_at :: nat

record AdminRequestListOut =
  items :: "ConsultationRequestOut list"
  total :: nat

record CancelOut =
  ok :: bool
  c_old_status :: RequestStatusEnum
  c_new_status :: RequestStatusEnum

section \<open>The request router (app/routers/requests.py)\<close>

text \<open>\<^verbatim>\<open>_to_out\<close>; the second argument is \<^verbatim>\<open>req.user\<close>, the owner's row when it exists.\<close>

definition to_out :: "ConsultationRequest \<Rightarrow> User option \<Rightarrow> ConsultationRequestOut" where
  "to_out req usr =
     \<lparr>o_id = r_id req, o_user_id = r_user_id req,
      o_user_email = map_option u_email usr,
      o_user_role = map_option u_role usr,
      o_goal = goal req, o_amount = amount req,
      o_monthly_contribution = monthly_contribution req,
      o_risk_profile = risk_profile req,
      o_time_horizon_years = time_horizon_years req,
      o_notes = r_notes req, o_status = status req,
      o_created_at = created_at req, o_updated_at = updated_at req\<rparr>"

text \<open>The relationship \<^verbatim>\<open>ConsultationRequest.user\<close>, loaded through \<^verbatim>\<open>user_id\<close>.\<close>

definition user_of :: "Db \<Rightarrow> ConsultationRequest \<Rightarrow> User option" where
  "user_of db req = find (\<lambda>u. u_id u = r_user_id req) (users db)"

text \<open>\<^verbatim>\<open>app.deps.require_advisor\<close>.\<close>

definition require_advisor :: "User \<Rightarrow> error + User" where
  "require_advisor current_user =
     (if u_role current_user \<notin> {''advisor'', ''admin''} then Inl (HTTPException 403)
      else Inr current_user)"

text \<open>
  Every handler below takes the authenticated user that \<^verbatim>\<open>get_current_user\<close> resolved,
  the instant \<^verbatim>\<open>now\<close> of the call where it writes a timestamp, and the database; a
  handler that writes returns its response together with the database after it. A
  handler that raises has committed nothing, so the database it returns is the one it
  was given.
\<close>

definition create_request ::
    "RawConsultationRequestCreate \<Rightarrow> User \<Rightarrow> nat \<Rightarrow> Db \<Rightarrow> (error + ConsultationRequestOut) \<times> Db" where
  "create_request raw current_user now db =
     (case validate_ConsultationRequestCreate raw of
        Inl e \<Rightarrow> (Inl e, db)
      | Inr payload \<Rightarrow>
          let new_req =
                \<lparr>r_id = next_id (map r_id (consultation_requests db)),
                 r_user_id = u_id current_user,
                 goal = strip (p_goal payload),
                 amount = p_amount payload,
                 monthly_contribution = p_monthly_contribution payload,
                 risk_profile = p_risk_profile payload,
                 time_horizon_years = p_time_horizon_years payload,
                 r_notes = (case p_notes payload of
                            None \<Rightarrow> None
                          | Some n \<Rightarrow> if n = [] then None else Some (strip n)),
                 status = pending,
                 created_at = now, updated_at = now\<rparr>
          in (Inr (to_out new_req (Some current_user)),
              db\<lparr>consultation_requests := consultation_requests db @ [new_req]\<rparr>))"

definition list_my_requests :: "User \<Rightarrow> Db \<Rightarrow> ConsultationRequestOut list" where
  "list_my_requests current_user db =
     map (\<lambda>r. to_out r (user_of db r))
       (order_by_desc created_at
          (filter (\<lambda>r. r_user_id r = u_id current_user) (consultation_requests db)))"

definition get_my_request :: "int \<Rightarrow> User \<Rightarrow> Db \<Rightarrow> error + ConsultationRequestOut" where
  "get_my_request rid current_user db =
     (case find (\<lambda>r. r_id r = rid) (consultation_requests db) of
        None \<Rightarrow> Inl (HTTPException 404)
      | Some req \<Rightarrow>
          if r_user_id req \<noteq> u_id current_user then Inl (HTTPException 403)
          else Inr (to_out req (user_of db req)))"

definition cancel_my_request :: "int \<Rightarrow> User \<Rightarrow> nat \<Rightarrow> Db \<Rightarrow> (error + CancelOut) \<times> Db" where
  "cancel_my_request rid current_user now db =
     (case find (\<lambda>r. r_id r = rid \<and> r_user_id r = u_id current_user) (consultation_requests db) of
        None \<Rightarrow> (Inl (HTTPException 404), db)
      | Some req \<Rightarrow>
          let curr_status = status req in
          if curr_status \<in> {in_review, completed} then (Inl (HTTPException 400), db)
          else if curr_status = cancelled
            then (Inr \<lparr>ok = True, c_old_status = cancelled, c_new_status = cancelled\<rparr>, db)
          else
            let old_status = curr_status;
                log = \<lparr>l_id = next_id (map l_id (status_logs db)),
                       request_id = r_id req,
                       changed_by_user_id = u_id current_user,
                       old_status = Some old_status,
                       new_status = cancelled,
                       changed_at = now\<rparr>
            in (Inr \<lparr>ok = True, c_old_status = old_status, c_new_status = cancelled\<rparr>,
                db\<lparr>consultation_requests :=
                      update_row (r_id req) (set_status cancelled now) (consultation_requests db),
                    status_logs := status_logs db @ [log]\<rparr>))"

text \<open>
  \<^verbatim>\<open>db.delete(req)\<close>. The audit table declares
  \<^verbatim>\<open>request = relationship("ConsultationRequest", backref="status_logs")\<close> with no delete
  cascade, and its column \<^verbatim>\<open>request_id\<close> is \<^verbatim>\<open>nullable=False\<close>. When a request is deleted
  the unit of work first detaches the rows of its \<^verbatim>\<open>status_logs\<close> collection by setting
  their \<^verbatim>\<open>request_id\<close> to NULL; the table refuses that, so for a request that has an audit
  row the commit raises \<^verbatim>\<open>IntegrityError\<close> and nothing is deleted.
\<close>

definition delete_my_request :: "int \<Rightarrow> User \<Rightarrow> Db \<Rightarrow> (error + unit) \<times> Db" where
  "delete_my_request rid current_user db =
     (case find (\<lambda>r. r_id r = rid \<and> r_user_id r = u_id current_user) (consultation_requests db) of
        None \<Rightarrow> (Inl (HTTPException 404), db)
      | Some req \<Rightarrow>
          if status req \<in> {in_review, completed} then (Inl (HTTPException 400), db)
          else if filter (\<lambda>l. request_id l = r_id req) (status_logs db) \<noteq> []
            then (Inl IntegrityError, db)
          else (Inr (),
                db\<lparr>consultation_requests :=
                      filter (\<lambda>r. r_id r \<noteq> r_id req) (consultation_requests db)\<rparr>))"

text \<open>
  \<^verbatim>\<open>list_all_requests\<close>. \<^verbatim>\<open>require_advisor\<close> is a dependency and runs before the query
  parameters are validated (\<^verbatim>\<open>skip\<close> with \<^verbatim>\<open>ge=0\<close>, \<^verbatim>\<open>limit\<close> with \<^verbatim>\<open>ge=1, le=200\<close>).
  When \<^verbatim>\<open>q\<close> is given and not blank, the handler assigns to \<^verbatim>\<open>query\<close> a query built
  again from \<^verbatim>\<open>db.query(models.ConsultationRequest)\<close>, joined with the owner.
\<close>

definition matches_q :: "Db \<Rightarrow> string \<Rightarrow> ConsultationRequest \<Rightarrow> bool" where
  "matches_q db qq r =
     (case user_of db r of
        None \<Rightarrow> False
      | Some u \<Rightarrow> ilike (goal r) qq \<or> ilike_opt (r_notes r) qq \<or> ilike (u_email u) qq)"

definition list_all_requests ::
    "RequestStatusEnum option \<Rightarrow> string option \<Rightarrow> int \<Rightarrow> int \<Rightarrow> User \<Rightarrow> Db \<Rightarrow> error + AdminRequestListOut" where
  "list_all_requests status_filter q skip limit current_user db =
     (case require_advisor current_user of
        Inl e \<Rightarrow> Inl e
      | Inr _ \<Rightarrow>
          if 0 \<le> skip \<and> 1 \<le> limit \<and> limit \<le> 200 then
            let query0 = consultation_requests db;
                query1 = (case status_filter of
                            None \<Rightarrow> query0
                          | Some s \<Rightarrow> filter (\<lambda>r. status r = s) query0);
                query2 = (case q of
                            None \<Rightarrow> query1
                          | Some qs \<Rightarrow>
                              if qs \<noteq> [] \<and> strip qs \<noteq> []
                              then filter (matches_q db (''%'' @ strip qs @ ''%''))
                                     (consultation_requests db)
                              else query1);
                reqs = take (nat limit) (drop (nat skip) (order_by_desc created_at query2))
            in Inr \<lparr>items = map (\<lambda>r. to_out r (user_of db r)) reqs,
                    total = length query2\<rparr>
          else Inl RequestValidationError)"

definition update_request_status ::
    "int \<Rightarrow> RequestStatusEnum \<Rightarrow> User \<Rightarrow> nat \<Rightarrow> Db \<Rightarrow> (error + ConsultationRequestOut) \<times> Db" where
  "update_request_status rid payload_status current_user now db =
     (case require_advisor current_user of
        Inl e \<Rightarrow> (Inl e, db)
      | Inr _ \<Rightarrow>
          (case find (\<lambda>r. r_id r = rid) (consultation_requests db) of
             None \<Rightarrow> (Inl (HTTPException 404), db)
           | Some req \<Rightarrow>
               let old = status req;
                   req' = set_status payload_status now req;
                   log = \<lparr>l_id = next_id (map l_id (status_logs db)),
                          request_id = r_id req,
                          changed_by_user_id = u_id current_user,
                          old_status = Some old,
                          new_status = payload_status,
                          changed_at = now\<rparr>
               in (Inr (to_out req' (user_of db req')),
                   db\<lparr>consultation_requests :=
                         update_row (r_id req) (set_status payload_status now) (consultation_requests db),
                       status_logs := status_logs db @ [log]\<rparr>)))"

definition get_request_history ::
    "int \<Rightarrow> User \<Rightarrow> Db \<Rightarrow> error + ConsultationRequestStatusLog list" where
  "get_request_history rid current_user db =
     (case find (\<lambda>r. r_id r = rid) (consultation_requests db) of
        None \<Rightarrow> Inl (HTTPException 404)
      | Some req \<Rightarrow>
          if u_role current_user \<notin> {''advisor'', ''admin''} \<and> r_user_id req \<noteq> u_id current_user
          then Inl (HTTPException 403)
          else Inr (order_by_desc changed_at
                 (filter (\<lambda>l. request_id l = rid) (status_logs db))))"

section \<open>Reconciliation of the audit trail with the current status\<close>

text \<open>The most recent audit row of a request: the last one written for it.\<close>

definition latest_log :: "int \<Rightarrow> ConsultationRequestStatusLog list \<Rightarrow> ConsultationRequestStatusLog option" where
  "latest_log rid logs =
     (let ls = filter (\<lambda>l. request_id l = rid) logs
      in if ls = [] then None else Some (last ls))"

definition reconciled :: "Db \<Rightarrow> ConsultationRequest \<Rightarrow> bool" where
  "reconciled db r =
     (case latest_log (r_id r) (status_logs db) of
        None \<Rightarrow> status r = pending
      | Some l \<Rightarrow> new_status l = status r)"

definition wf :: "Db \<Rightarrow> bool" where
  "wf db \<longleftrightarrow>
     (\<forall>l \<in> set (status_logs db). request_id l \<in> r_id ` set (consultation_requests db)) \<and>
     (\<forall>r \<in> set (consultation_requests db). reconciled db r)"

text \<open>
  The databases the handlers can produce: from empty request and audit tables, any
  sequence of calls of the four handlers that write, by any users, with any arguments,
  each call leaving the database it returns.
\<close>

inductive reachable :: "Db \<Rightarrow> bool" where
  init: "reachable (empty_db us)"
| create: "reachable db \<Longrightarrow> reachable (snd (create_request raw current_user now db))"
| cancel: "reachable db \<Longrightarrow> reachable (snd (cancel_my_request rid current_user now db))"
| patch: "reachable db \<Longrightarrow> reachable (snd (update_request_status rid s current_user now db))"
| delete: "reachable db \<Longrightarrow> reachable (snd (delete_my_request rid current_user db))"

section \<open>A small population\<close>

text \<open>
  Two clients and an advisor, and the databases of the scenario: Alice files a request
  (\<open>db1\<close>); from there either the advisor takes it in review (\<open>db2\<close>) or Alice cancels
  it (\<open>db3\<close>).
\<close>

definition alice :: User where
  "alice = \<lparr>u_id = 1, u_email = ''alice@example.com'', u_role = ''client''\<rparr>"

definition bob :: User where
  "bob = \<lparr>u_id = 2, u_email = ''bob@example.com'', u_role = ''client''\<rparr>"

definition carol :: User where
  "carol = \<lparr>u_id = 3, u_email = ''carol@example.com'', u_role = ''advisor''\<rparr>"

definition raw1 :: RawConsultationRequestCreate where
  "raw1 = \<lparr>raw_goal = ''Comprare casa'', raw_amount = 1000, raw_monthly_contribution = None,
            raw_risk_profile = ''equilibrato'', raw_time_horizon_years = 10, raw_notes = None\<rparr>"

definition raw_zero_amount :: RawConsultationRequestCreate where
  "raw_zero_amount = raw1\<lparr>raw_amount := 0\<rparr>"

definition raw_empty_goal :: RawConsultationRequestCreate where
  "raw_empty_goal = raw1\<lparr>raw_goal := []\<rparr>"

definition req1 :: ConsultationRequest where
  "req1 = \<lparr>r_id = 1, r_user_id = 1, goal = ''Comprare casa'', amount = 1000,
            monthly_contribution = None, risk_profile = equilibrato, time_horizon_years = 10,
            r_notes = None, status = pending, created_at = 100, updated_at = 100\<rparr>"

definition db0 :: Db where
  "db0 = empty_db [alice, bob, carol]"

definition db1 :: Db where
  "db1 = snd (create_request raw1 alice 100 db0)"

definition db2 :: Db where
  "db2 = snd (update_request_status 1 in_review carol 200 db1)"

definition db3 :: Db where
  "db3 = snd (cancel_my_request 1 alice 200 db1)"

section \<open>Auxiliary facts\<close>

lemma find_update_row:
  assumes "\<And>r. r_id (f r) = r_id r" "\<And>r. r_user_id (f r) = r_user_id r"
  shows "find (\<lambda>r. r_id r = rid \<and> r_user_id r = uid) (update_row rid f rows)
       = map_option f (find (\<lambda>r. r_id r = rid \<and> r_user_id r = uid) rows)"
  by (induction rows) (simp_all add: update_row_def assms)

lemma find_id_update_row:
  assumes "\<And>r. r_id (f r) = r_id r"
  shows "find (\<lambda>r. r_id r = rid) (update_row rid f rows)
       = map_option f (find (\<lambda>r. r_id r = rid) rows)"
  by (induction rows) (simp_all add: update_row_def assms)

lemma set_status_id [simp]: "r_id (set_status s now r) = r_id r"
  by (simp add: set_status_def)

lemma set_status_user_id [simp]: "r_user_id (set_status s now r) = r_user_id r"
  by (simp add: set_status_def)

lemma set_status_status [simp]: "status (set_status s now r) = s"
  by (simp add: set_status_def)

lemma find_SomeD: "find P xs = Some x \<Longrightarrow> P x \<and> x \<in> set xs"
  by (induction xs) (auto split: if_splits)

lemma fold_max_lower: "(a::int) \<le> fold max ids a"
proof (induction ids arbitrary: a)
  case Nil show ?case by simp
next
  case (Cons i ids)
  have "a \<le> max i a" by simp
  also have "\<dots> \<le> fold max ids (max i a)" by (rule Cons.IH)
  finally show ?case by simp
qed

lemma fold_max_upper: "i \<in> set ids \<Longrightarrow> (i::int) \<le> fold max ids a"
proof (induction ids arbitrary: a)
  case Nil then show ?case by simp
next
  case (Cons j ids)
  show ?case
  proof (cases "i = j")
    case True
    have "i \<le> max j a" using True by simp
    also have "\<dots> \<le> fold max ids (max j a)" by (rule fold_max_lower)
    finally show ?thesis by simp
  next
    case False
    with Cons.prems have "i \<in> set ids" by simp
    then show ?thesis using Cons.IH by simp
  qed
qed

lemma next_id_fresh: "next_id ids \<notin> set ids"
proof
  assume "next_id ids \<in> set ids"
  then have "next_id ids \<le> fold max ids 0" by (rule fold_max_upper)
  then show False by (simp add: next_id_def)
qed

lemma latest_log_snoc:
  "latest_log rid (logs @ [l]) = (if request_id l = rid then Some l else latest_log rid logs)"
  by (simp add: latest_log_def)

lemma latest_log_None: "latest_log rid logs = None \<longleftrightarrow> filter (\<lambda>l. request_id l = rid) logs = []"
  by (simp add: latest_log_def Let_def)

lemma wf_empty: "wf (empty_db us)"
  by (simp add: wf_def empty_db_def)

lemma set_update_row:
  "r' \<in> set (update_row pk f rows) \<Longrightarrow> \<exists>r \<in> set rows. r' = (if r_id r = pk then f r else r)"
  by (auto simp: update_row_def)

lemma ids_update_row:
  assumes "\<And>r. r_id (f r) = r_id r"
  shows "r_id ` set (update_row pk f rows) = r_id ` set rows"
proof -
  have "map r_id (update_row pk f rows) = map r_id rows"
    by (simp add: update_row_def assms)
  then have "set (map r_id (update_row pk f rows)) = set (map r_id rows)" by simp
  then show ?thesis by simp
qed

lemma wf_transition:
  assumes wf: "wf db" and req: "req \<in> set (consultation_requests db)"
    and l1: "request_id lg = r_id req" and l2: "new_status lg = s"
  shows "wf (db\<lparr>consultation_requests :=
                 update_row (r_id req) (set_status s now) (consultation_requests db),
               status_logs := status_logs db @ [lg]\<rparr>)"
proof -
  let ?db' = "db\<lparr>consultation_requests :=
                 update_row (r_id req) (set_status s now) (consultation_requests db),
               status_logs := status_logs db @ [lg]\<rparr>"
  have ids: "r_id ` set (consultation_requests ?db') = r_id ` set (consultation_requests db)"
    by (simp add: ids_update_row)
  have a: "\<forall>l \<in> set (status_logs ?db'). request_id l \<in> r_id ` set (consultation_requests ?db')"
    unfolding ids using wf req l1 by (auto simp: wf_def)
  have b: "reconciled ?db' r'" if "r' \<in> set (consultation_requests ?db')" for r'
  proof -
    from that obtain r where r: "r \<in> set (consultation_requests db)"
      and r': "r' = (if r_id r = r_id req then set_status s now r else r)"
      using set_update_row by fastforce
    have old: "reconciled db r" using wf r by (simp add: wf_def)
    show ?thesis
    proof (cases "r_id r = r_id req")
      case True
      then show ?thesis using r' l1 l2 by (simp add: reconciled_def latest_log_snoc)
    next
      case False
      then show ?thesis using r' l1 old by (simp add: reconciled_def latest_log_snoc)
    qed
  qed
  show ?thesis unfolding wf_def using a b by blast
qed

lemma wf_create: "wf db \<Longrightarrow> wf (snd (create_request raw u now db))"
proof (cases "validate_ConsultationRequestCreate raw")
  case (Inl e)
  assume "wf db" then show ?thesis by (simp add: create_request_def Inl)
next
  case (Inr payload)
  assume wf: "wf db"
  let ?n = "next_id (map r_id (consultation_requests db))"
  have fresh: "?n \<notin> r_id ` set (consultation_requests db)"
    using next_id_fresh [of "map r_id (consultation_requests db)"] by simp
  have "request_id l \<noteq> ?n" if "l \<in> set (status_logs db)" for l
  proof -
    from that wf have "request_id l \<in> r_id ` set (consultation_requests db)"
      by (simp add: wf_def)
    with fresh show ?thesis by metis
  qed
  then have nolog: "filter (\<lambda>l. request_id l = ?n) (status_logs db) = []"
    by (simp add: filter_empty_conv)
  then have none: "latest_log ?n (status_logs db) = None" by (simp add: latest_log_None)
  show ?thesis
    using wf none by (auto simp: create_request_def Inr Let_def wf_def reconciled_def)
qed

lemma wf_cancel: "wf db \<Longrightarrow> wf (snd (cancel_my_request rid u now db))"
proof -
  assume wf: "wf db"
  show ?thesis
  proof (cases "find (\<lambda>r. r_id r = rid \<and> r_user_id r = u_id u) (consultation_requests db)")
    case None
    then show ?thesis using wf by (simp add: cancel_my_request_def)
  next
    case (Some req)
    then have req: "req \<in> set (consultation_requests db)" using find_SomeD by fastforce
    show ?thesis
      using wf wf_transition [OF wf req, of _ cancelled now]
      by (simp add: cancel_my_request_def Some Let_def)
  qed
qed

lemma wf_patch: "wf db \<Longrightarrow> wf (snd (update_request_status rid s u now db))"
proof -
  assume wf: "wf db"
  show ?thesis
  proof (cases "find (\<lambda>r. r_id r = rid) (consultation_requests db)")
    case None
    then show ?thesis using wf by (simp add: update_request_status_def split: sum.splits)
  next
    case (Some req)
    then have req: "req \<in> set (consultation_requests db)" using find_SomeD by fastforce
    show ?thesis
      using wf wf_transition [OF wf req, of _ s now]
      by (simp add: update_request_status_def Some Let_def split: sum.splits)
  qed
qed

lemma wf_delete: "wf db \<Longrightarrow> wf (snd (delete_my_request rid u db))"
proof -
  assume wf: "wf db"
  show ?thesis
  proof (cases "find (\<lambda>r. r_id r = rid \<and> r_user_id r = u_id u) (consultation_requests db)")
    case None
    then show ?thesis using wf by (simp add: delete_my_request_def)
  next
    case (Some req)
    have gone: "wf (db\<lparr>consultation_requests :=
                      filter (\<lambda>r. r_id r \<noteq> r_id req) (consultation_requests db)\<rparr>)"
      if nolog: "filter (\<lambda>l. request_id l = r_id req) (status_logs db) = []"
    proof -
      have "request_id l \<in> r_id ` set (filter (\<lambda>r. r_id r \<noteq> r_id req) (consultation_requests db))"
        if l: "l \<in> set (status_logs db)" for l
      proof -
        from l wf obtain r where r: "r \<in> set (consultation_requests db)" "request_id l = r_id r"
          by (auto simp: wf_def)
        from l nolog have "request_id l \<noteq> r_id req" by (simp add: filter_empty_conv)
        with r show ?thesis by auto
      qed
      moreover have "reconciled db r" if "r \<in> set (consultation_requests db)" for r
        using that wf by (simp add: wf_def)
      ultimately show ?thesis by (simp add: wf_def reconciled_def)
    qed
    show ?thesis
      using wf gone by (simp add: delete_my_request_def Some)
  qed
qed

lemma reachable_wf: "reachable db \<Longrightarrow> wf db"
  by (induction rule: reachable.induct)
     (simp_all add: wf_empty wf_create wf_cancel wf_patch wf_delete)

subsection \<open>The scenario databases, evaluated\<close>

lemma validate_raw1:
  "validate_ConsultationRequestCreate raw1 =
     Inr \<lparr>p_goal = ''Comprare casa'', p_amount = 1000, p_monthly_contribution = None,
          p_risk_profile = equilibrato, p_time_horizon_years = 10, p_notes = None\<rparr>"
  by (simp add: validate_ConsultationRequestCreate_def raw1_def parse_RiskProfile_def)

lemma strip_goal1: "strip ''Comprare casa'' = ''Comprare casa''"
  by (simp add: strip_def is_space_def)

lemma db1_eq:
  "db1 = \<lparr>users = [alice, bob, carol], consultation_requests = [req1], status_logs = []\<rparr>"
  by (simp add: db1_def db0_def empty_db_def create_request_def validate_raw1 strip_goal1
        next_id_def req1_def alice_def Let_def)

lemma db2_eq:
  "db2 = \<lparr>users = [alice, bob, carol],
          consultation_requests = [req1\<lparr>status := in_review, updated_at := 200\<rparr>],
          status_logs = [\<lparr>l_id = 1, request_id = 1, changed_by_user_id = 3,
                          old_status = Some pending, new_status = in_review, changed_at = 200\<rparr>]\<rparr>"
  by (simp add: db2_def db1_eq update_request_status_def require_advisor_def carol_def
        req1_def update_row_def set_status_def next_id_def Let_def)

lemma db3_eq:
  "db3 = \<lparr>users = [alice, bob, carol],
          consultation_requests = [req1\<lparr>status := cancelled, updated_at := 200\<rparr>],
          status_logs = [\<lparr>l_id = 1, request_id = 1, changed_by_user_id = 1,
                          old_status = Some pending, new_status = cancelled, changed_at = 200\<rparr>]\<rparr>"
  by (simp add: db3_def db1_eq cancel_my_request_def alice_def
        req1_def update_row_def set_status_def next_id_def Let_def)

lemma reachable_db1: "reachable db1"
  unfolding db1_def db0_def by (intro reachable.intros)

lemma reachable_db2: "reachable db2"
  unfolding db2_def db1_def db0_def by (intro reachable.intros)

lemma reachable_db3: "reachable db3"
  unfolding db3_def db1_def db0_def by (intro reachable.intros)

section \<open>The claims\<close>

text \<open>
  Claim C1. In every database the handlers can produce, a request that has no audit row
  is still pending, and a request that has audit rows has the status its most recent
  audit row records as the new status.
\<close>

theorem audit_log_reconciles_with_status:
  assumes "reachable db" and "r \<in> set (consultation_requests db)"
  shows "(filter (\<lambda>l. request_id l = r_id r) (status_logs db) = [] \<longrightarrow> status r = pending) \<and>
         (filter (\<lambda>l. request_id l = r_id r) (status_logs db) \<noteq> [] \<longrightarrow>
            new_status (last (filter (\<lambda>l. request_id l = r_id r) (status_logs db))) = status r)"
proof -
  from assms have "reconciled db r" using reachable_wf by (simp add: wf_def)
  then show ?thesis by (simp add: reconciled_def latest_log_def Let_def split: if_splits)
qed

text \<open>
  Claim C1 at the database in which Alice has cancelled her request: it is reachable,
  holds her request, and the last audit row of that request says cancelled.
\<close>

theorem audit_log_reconciles_with_status_witness:
  "reachable db3 \<and> req1\<lparr>status := cancelled, updated_at := 200\<rparr> \<in> set (consultation_requests db3) \<and>
   filter (\<lambda>l. request_id l = 1) (status_logs db3) \<noteq> [] \<and>
   new_status (last (filter (\<lambda>l. request_id l = 1) (status_logs db3))) = cancelled"
proof -
  have mem: "req1\<lparr>status := cancelled, updated_at := 200\<rparr> \<in> set (consultation_requests db3)"
    by (simp add: db3_eq)
  show ?thesis
    using audit_log_reconciles_with_status [OF reachable_db3 mem] reachable_db3 mem
    by (simp add: db3_eq req1_def)
qed

text \<open>
  Claim C2. When an advisor or admin patches the status of an existing request, the call
  succeeds whatever the old and new status are, the audit table grows by exactly one
  row, and that row carries the request, the caller, the status before the call and the
  status after it; the request has the new status afterwards. Nothing depends on the
  two statuses being different.
\<close>

theorem advisor_set_status_writes_one_audit_row:
  assumes role: "u_role current_user = ''advisor'' \<or> u_role current_user = ''admin''"
    and found: "find (\<lambda>r. r_id r = rid) (consultation_requests db) = Some req"
  shows "\<exists>out db'. update_request_status rid s current_user now db = (Inr out, db')
       \<and> status_logs db' = status_logs db @
            [\<lparr>l_id = next_id (map l_id (status_logs db)), request_id = rid,
              changed_by_user_id = u_id current_user,
              old_status = Some (status req), new_status = s, changed_at = now\<rparr>]
       \<and> map_option status (find (\<lambda>r. r_id r = rid) (consultation_requests db')) = Some s
       \<and> o_id out = rid \<and> o_status out = s"
proof -
  have rid: "r_id req = rid" using find_SomeD [OF found] by simp
  have adv: "require_advisor current_user = Inr current_user"
    using role by (auto simp: require_advisor_def)
  show ?thesis
    by (simp add: update_request_status_def adv found Let_def rid find_id_update_row to_out_def)
qed

text \<open>
  Claim C2 where the advisor sets a request in review to in review again: a second audit
  row, from in_review to in_review, is written.
\<close>

theorem advisor_set_status_writes_one_audit_row_witness:
  "(u_role carol = ''advisor'' \<or> u_role carol = ''admin'') \<and>
   find (\<lambda>r. r_id r = 1) (consultation_requests db2)
     = Some (req1\<lparr>status := in_review, updated_at := 200\<rparr>) \<and>
   (\<exists>out db'. update_request_status 1 in_review carol 300 db2 = (Inr out, db')
       \<and> status_logs db' = status_logs db2 @
            [\<lparr>l_id = 2, request_id = 1, changed_by_user_id = 3,
              old_status = Some in_review, new_status = in_review, changed_at = 300\<rparr>]
       \<and> map_option status (find (\<lambda>r. r_id r = 1) (consultation_requests db')) = Some in_review
       \<and> o_id out = 1 \<and> o_status out = in_review)"
proof -
  have role: "u_role carol = ''advisor'' \<or> u_role carol = ''admin''"
    by (simp add: carol_def)
  have found: "find (\<lambda>r. r_id r = 1) (consultation_requests db2)
     = Some (req1\<lparr>status := in_review, updated_at := 200\<rparr>)"
    by (simp add: db2_eq req1_def)
  have n: "next_id (map l_id (status_logs db2)) = 2"
    by (simp add: db2_eq next_id_def)
  show ?thesis
    using advisor_set_status_writes_one_audit_row [OF role found, of in_review 300] role found
    by (simp add: n carol_def)
qed

text \<open>
  Claim C3. When the owner cancels a request that is in review or completed, the call
  fails with status 400 and the database, and so the request and the audit table, is
  the one before the call.
\<close>

theorem cancel_rejected_once_worked_on:
  assumes found: "find (\<lambda>r. r_id r = rid \<and> r_user_id r = u_id current_user)
                    (consultation_requests db) = Some req"
    and st: "status req = in_review \<or> status req = completed"
  shows "cancel_my_request rid current_user now db = (Inl (HTTPException 400), db)"
  using st by (auto simp: cancel_my_request_def found)

text \<open>
  Claim C3 for Alice's request once the advisor has taken it in review.
\<close>

theorem cancel_rejected_once_worked_on_witness:
  "find (\<lambda>r. r_id r = 1 \<and> r_user_id r = u_id alice) (consultation_requests db2)
     = Some (req1\<lparr>status := in_review, updated_at := 200\<rparr>) \<and>
   (status (req1\<lparr>status := in_review, updated_at := 200\<rparr>) = in_review \<or>
    status (req1\<lparr>status := in_review, updated_at := 200\<rparr>) = completed) \<and>
   cancel_my_request 1 alice 300 db2 = (Inl (HTTPException 400), db2)"
proof -
  have found: "find (\<lambda>r. r_id r = 1 \<and> r_user_id r = u_id alice) (consultation_requests db2)
     = Some (req1\<lparr>status := in_review, updated_at := 200\<rparr>)"
    by (simp add: db2_eq req1_def alice_def)
  have st: "status (req1\<lparr>status := in_review, updated_at := 200\<rparr>) = in_review \<or>
    status (req1\<lparr>status := in_review, updated_at := 200\<rparr>) = completed"
    by simp
  show ?thesis
    using cancel_rejected_once_worked_on [OF found st, of 300] found st by simp
qed

text \<open>
  Claim C4. Cancelling a request of one's own that is already cancelled succeeds, answers
  old and new status cancelled, and changes nothing in the database. Cancelling a
  pending request of one's own twice answers pending to cancelled the first time and
  cancelled to cancelled the second time, and the two calls together add exactly one
  audit row.
\<close>

theorem cancel_is_idempotent:
  assumes found: "find (\<lambda>r. r_id r = rid \<and> r_user_id r = u_id current_user)
                    (consultation_requests db) = Some req"
  shows "(status req = cancelled \<longrightarrow>
            cancel_my_request rid current_user now db =
              (Inr \<lparr>ok = True, c_old_status = cancelled, c_new_status = cancelled\<rparr>, db)) \<and>
         (status req = pending \<longrightarrow>
            (\<exists>db1 db2 row.
               cancel_my_request rid current_user now db =
                 (Inr \<lparr>ok = True, c_old_status = pending, c_new_status = cancelled\<rparr>, db1) \<and>
               cancel_my_request rid current_user now' db1 =
                 (Inr \<lparr>ok = True, c_old_status = cancelled, c_new_status = cancelled\<rparr>, db2) \<and>
               db2 = db1 \<and>
               status_logs db2 = status_logs db @ [row] \<and>
               request_id row = rid \<and> old_status row = Some pending \<and> new_status row = cancelled \<and>
               changed_by_user_id row = u_id current_user))"
proof (intro conjI impI)
  assume "status req = cancelled"
  then show "cancel_my_request rid current_user now db =
      (Inr \<lparr>ok = True, c_old_status = cancelled, c_new_status = cancelled\<rparr>, db)"
    by (simp add: cancel_my_request_def found)
next
  assume p: "status req = pending"
  have rid: "r_id req = rid" using find_SomeD [OF found] by simp
  let ?row = "\<lparr>l_id = next_id (map l_id (status_logs db)), request_id = rid,
                changed_by_user_id = u_id current_user, old_status = Some pending,
                new_status = cancelled, changed_at = now\<rparr>"
  let ?db1 = "db\<lparr>consultation_requests :=
                   update_row rid (set_status cancelled now) (consultation_requests db),
                 status_logs := status_logs db @ [?row]\<rparr>"
  have first: "cancel_my_request rid current_user now db =
      (Inr \<lparr>ok = True, c_old_status = pending, c_new_status = cancelled\<rparr>, ?db1)"
    by (simp add: cancel_my_request_def found p rid Let_def)
  have found1: "find (\<lambda>r. r_id r = rid \<and> r_user_id r = u_id current_user)
                  (consultation_requests ?db1) = Some (set_status cancelled now req)"
    by (simp add: find_update_row found)
  have second: "cancel_my_request rid current_user now' ?db1 =
      (Inr \<lparr>ok = True, c_old_status = cancelled, c_new_status = cancelled\<rparr>, ?db1)"
    unfolding cancel_my_request_def found1 by simp
  show "\<exists>db1 db2 row.
      cancel_my_request rid current_user now db =
        (Inr \<lparr>ok = True, c_old_status = pending, c_new_status = cancelled\<rparr>, db1) \<and>
      cancel_my_request rid current_user now' db1 =
        (Inr \<lparr>ok = True, c_old_status = cancelled, c_new_status = cancelled\<rparr>, db2) \<and>
      db2 = db1 \<and>
      status_logs db2 = status_logs db @ [row] \<and>
      request_id row = rid \<and> old_status row = Some pending \<and> new_status row = cancelled \<and>
      changed_by_user_id row = u_id current_user"
    using first second by (intro exI [of _ ?db1] exI [of _ ?row]) simp
qed

text \<open>
  Claim C4 for Alice: both the cancel of her cancelled request and the two cancels in a
  row of her pending request, after which the audit table has one row.
\<close>

theorem cancel_is_idempotent_witness:
  "find (\<lambda>r. r_id r = 1 \<and> r_user_id r = u_id alice) (consultation_requests db3)
     = Some (req1\<lparr>status := cancelled, updated_at := 200\<rparr>) \<and>
   cancel_my_request 1 alice 300 db3 =
     (Inr \<lparr>ok = True, c_old_status = cancelled, c_new_status = cancelled\<rparr>, db3) \<and>
   find (\<lambda>r. r_id r = 1 \<and> r_user_id r = u_id alice) (consultation_requests db1) = Some req1 \<and>
   status req1 = pending \<and>
   cancel_my_request 1 alice 200 db1 =
     (Inr \<lparr>ok = True, c_old_status = pending, c_new_status = cancelled\<rparr>, db3) \<and>
   cancel_my_request 1 alice 300 db3 =
     (Inr \<lparr>ok = True, c_old_status = cancelled, c_new_status = cancelled\<rparr>, db3) \<and>
   length (status_logs db3) = 1"
proof -
  have found3: "find (\<lambda>r. r_id r = 1 \<and> r_user_id r = u_id alice) (consultation_requests db3)
     = Some (req1\<lparr>status := cancelled, updated_at := 200\<rparr>)"
    by (simp add: db3_eq req1_def alice_def)
  have found1: "find (\<lambda>r. r_id r = 1 \<and> r_user_id r = u_id alice) (consultation_requests db1)
     = Some req1"
    by (simp add: db1_eq req1_def alice_def)
  have p: "status req1 = pending" by (simp add: req1_def)
  have again: "cancel_my_request 1 alice 300 db3 =
      (Inr \<lparr>ok = True, c_old_status = cancelled, c_new_status = cancelled\<rparr>, db3)"
    using cancel_is_idempotent [OF found3, of 300] by simp
  have twice: "\<exists>db1' db2 row.
      cancel_my_request 1 alice 200 db1 =
        (Inr \<lparr>ok = True, c_old_status = pending, c_new_status = cancelled\<rparr>, db1') \<and>
      cancel_my_request 1 alice 300 db1' =
        (Inr \<lparr>ok = True, c_old_status = cancelled, c_new_status = cancelled\<rparr>, db2) \<and>
      db2 = db1' \<and> status_logs db2 = status_logs db1 @ [row] \<and>
      request_id row = 1 \<and> old_status row = Some pending \<and> new_status row = cancelled \<and>
      changed_by_user_id row = u_id alice"
    using cancel_is_idempotent [OF found1, of 200 300] p by simp
  then obtain db1' row where
    first: "cancel_my_request 1 alice 200 db1 =
        (Inr \<lparr>ok = True, c_old_status = pending, c_new_status = cancelled\<rparr>, db1')"
    and logs: "status_logs db1' = status_logs db1 @ [row]"
    by auto
  have db1': "db1' = db3" using first by (simp add: db3_def)
  have len: "length (status_logs db3) = 1" using logs db1' by (simp add: db1_eq)
  show ?thesis using found3 found1 p again first db1' len by simp
qed

text \<open>
  Claim C5, at inputs where the code departs from it. A payload whose amount is 0 and a
  payload whose goal is the empty string both pass validation: the requests are created
  and stored with amount 0 and with an empty goal.
\<close>

theorem create_accepts_zero_amount_and_empty_goal:
  "fst (create_request raw_zero_amount alice 100 db0) =
     Inr (to_out (req1\<lparr>amount := 0\<rparr>) (Some alice)) \<and>
   consultation_requests (snd (create_request raw_zero_amount alice 100 db0)) =
     [req1\<lparr>amount := 0\<rparr>] \<and>
   fst (create_request raw_empty_goal alice 100 db0) =
     Inr (to_out (req1\<lparr>goal := []\<rparr>) (Some alice)) \<and>
   consultation_requests (snd (create_request raw_empty_goal alice 100 db0)) =
     [req1\<lparr>goal := []\<rparr>]"
  by (simp add: create_request_def validate_ConsultationRequestCreate_def parse_RiskProfile_def
        raw_zero_amount_def raw_empty_goal_def raw1_def db0_def empty_db_def next_id_def
        strip_goal1 strip_def is_space_def req1_def alice_def Let_def)

text \<open>
  Claim C6. In every database the handlers can produce, a payload that passes validation
  creates a row with a key no row had, owned by the caller and pending, and no
  audit row refers to it; the audit table is not written.
\<close>

theorem create_yields_pending_unlogged_request:
  assumes reach: "reachable db"
    and valid: "validate_ConsultationRequestCreate raw = Inr payload"
  shows "\<exists>out db' row.
           create_request raw current_user now db = (Inr out, db') \<and>
           consultation_requests db' = consultation_requests db @ [row] \<and>
           status_logs db' = status_logs db \<and>
           r_id row \<notin> r_id ` set (consultation_requests db) \<and>
           o_id out = r_id row \<and>
           r_user_id row = u_id current_user \<and> o_user_id out = u_id current_user \<and>
           status row = pending \<and> o_status out = pending \<and>
           filter (\<lambda>l. request_id l = r_id row) (status_logs db') = []"
proof -
  let ?n = "next_id (map r_id (consultation_requests db))"
  have wf: "wf db" using reach by (rule reachable_wf)
  have fresh: "?n \<notin> r_id ` set (consultation_requests db)"
    using next_id_fresh [of "map r_id (consultation_requests db)"] by simp
  have "request_id l \<noteq> ?n" if "l \<in> set (status_logs db)" for l
  proof -
    from that wf have "request_id l \<in> r_id ` set (consultation_requests db)"
      by (simp add: wf_def)
    with fresh show ?thesis by metis
  qed
  then have nolog: "filter (\<lambda>l. request_id l = ?n) (status_logs db) = []"
    by (simp add: filter_empty_conv)
  show ?thesis
    using fresh nolog by (simp add: create_request_def valid Let_def to_out_def)
qed

text \<open>
  Claim C6 where Bob files a request after Alice has cancelled hers.
\<close>

theorem create_yields_pending_unlogged_request_witness:
  "reachable db3 \<and>
   validate_ConsultationRequestCreate raw1 =
     Inr \<lparr>p_goal = ''Comprare casa'', p_amount = 1000, p_monthly_contribution = None,
          p_risk_profile = equilibrato, p_time_horizon_years = 10, p_notes = None\<rparr> \<and>
   (\<exists>out db' row.
           create_request raw1 bob 400 db3 = (Inr out, db') \<and>
           consultation_requests db' = consultation_requests db3 @ [row] \<and>
           status_logs db' = status_logs db3 \<and>
           r_id row \<notin> r_id ` set (consultation_requests db3) \<and>
           o_id out = r_id row \<and>
           r_user_id row = 2 \<and> o_user_id out = 2 \<and>
           status row = pending \<and> o_status out = pending \<and>
           filter (\<lambda>l. request_id l = r_id row) (status_logs db') = [])"
  using create_yields_pending_unlogged_request [OF reachable_db3 validate_raw1, of bob 400]
    reachable_db3 validate_raw1
  by (simp add: bob_def)

text \<open>
  Claim C7, at an input where the code departs from it. Alice's request is cancelled,
  which left one audit row; her delete of it does not succeed: the flush raises
  IntegrityError and the row stays.
\<close>

theorem delete_of_cancelled_request_fails:
  "map status (consultation_requests db3) = [cancelled] \<and>
   map r_user_id (consultation_requests db3) = [u_id alice] \<and>
   delete_my_request 1 alice db3 = (Inl IntegrityError, db3)"
  by (simp add: db3_eq delete_my_request_def req1_def alice_def)

text \<open>
  Claim C8 as stated fails for the detail view: Bob gets 403 for Alice's request and 404
  for a request that does not exist, two different answers.
\<close>

theorem get_distinguishes_absent_from_foreign:
  "get_my_request 1 bob db1 = Inl (HTTPException 403) \<and>
   get_my_request 2 bob db1 = Inl (HTTPException 404) \<and>
   get_my_request 1 bob db1 \<noteq> get_my_request 2 bob db1"
  by (simp add: get_my_request_def db1_eq req1_def bob_def)

text \<open>
  Claim C8 as amended. For a key in the range of SQLite's integers, a user who owns no
  request with that key never gets data. Cancel and delete answer 404, and leave the
  database alone, whether the request is absent or belongs to someone else. The detail
  view, and the history for a user who is neither advisor nor admin, answer 404 when
  the request is absent and 403 when it belongs to someone else.
\<close>

theorem non_owner_never_receives_data:
  assumes range: "sqlite_integer rid"
    and foreign: "\<forall>r \<in> set (consultation_requests db). r_id r = rid \<longrightarrow> r_user_id r \<noteq> u_id current_user"
  shows "cancel_my_request rid current_user now db = (Inl (HTTPException 404), db) \<and>
         delete_my_request rid current_user db = (Inl (HTTPException 404), db) \<and>
         get_my_request rid current_user db =
           Inl (HTTPException (if rid \<in> r_id ` set (consultation_requests db) then 403 else 404)) \<and>
         (u_role current_user \<notin> {''advisor'', ''admin''} \<longrightarrow>
            get_request_history rid current_user db =
              Inl (HTTPException (if rid \<in> r_id ` set (consultation_requests db) then 403 else 404)))"
proof -
  have none: "find (\<lambda>r. r_id r = rid \<and> r_user_id r = u_id current_user) (consultation_requests db) = None"
    using foreign by (auto simp: find_None_iff)
  show ?thesis
  proof (cases "find (\<lambda>r. r_id r = rid) (consultation_requests db)")
    case None
    then have "rid \<notin> r_id ` set (consultation_requests db)"
      by (auto simp: find_None_iff)
    then show ?thesis
      by (simp add: cancel_my_request_def delete_my_request_def none get_my_request_def
            get_request_history_def None)
  next
    case (Some req)
    then have req: "r_id req = rid \<and> req \<in> set (consultation_requests db)"
      by (rule find_SomeD)
    then have "rid \<in> r_id ` set (consultation_requests db)" by auto
    moreover have "r_user_id req \<noteq> u_id current_user" using req foreign by auto
    ultimately show ?thesis
      by (simp add: cancel_my_request_def delete_my_request_def none get_my_request_def
            get_request_history_def Some)
  qed
qed

text \<open>
  Claim C8 as amended, for Bob and Alice's request.
\<close>

theorem non_owner_never_receives_data_witness:
  "sqlite_integer 1 \<and>
   map r_user_id (filter (\<lambda>r. r_id r = 1) (consultation_requests db1)) = [u_id alice] \<and>
   u_id alice \<noteq> u_id bob \<and>
   cancel_my_request 1 bob 300 db1 = (Inl (HTTPException 404), db1) \<and>
   delete_my_request 1 bob db1 = (Inl (HTTPException 404), db1) \<and>
   get_my_request 1 bob db1 = Inl (HTTPException 403) \<and>
   u_role bob \<notin> {''advisor'', ''admin''} \<and>
   get_request_history 1 bob db1 = Inl (HTTPException 403)"
proof -
  have foreign: "\<forall>r \<in> set (consultation_requests db1). r_id r = 1 \<longrightarrow> r_user_id r \<noteq> u_id bob"
    by (simp add: db1_eq req1_def bob_def)
  have role: "u_role bob \<notin> {''advisor'', ''admin''}" by (simp add: bob_def)
  have ex: "1 \<in> r_id ` set (consultation_requests db1)" by (simp add: db1_eq req1_def)
  have owner: "map r_user_id (filter (\<lambda>r. r_id r = 1) (consultation_requests db1)) = [u_id alice]"
    by (simp add: db1_eq req1_def alice_def)
  have other: "u_id alice \<noteq> u_id bob" by (simp add: alice_def bob_def)
  have range: "sqlite_integer 1" by (simp add: sqlite_integer_def)
  show ?thesis
    using non_owner_never_receives_data [OF range foreign, of 300] range owner other role ex
    by simp
qed

text \<open>
  Claim C9, at an input where the code departs from it. The only request is in review;
  the advisor lists with status pending and the search string casa. The search rebuilds
  the query without the status filter, so the in-review request is returned and the
  total is 1.
\<close>

theorem list_all_drops_status_filter_under_search:
  "map status (consultation_requests db2) = [in_review] \<and>
   require_advisor carol = Inr carol \<and>
   map_sum id (\<lambda>out. (map o_id (items out), map o_status (items out), total out))
     (list_all_requests (Some pending) (Some ''casa'') 0 25 carol db2)
     = Inr ([1], [in_review], 1)"
  by (simp add: db2_eq list_all_requests_def require_advisor_def carol_def alice_def req1_def
        strip_def is_space_def matches_q_def user_of_def ilike_def ilike_opt_def lower_def
        to_out_def order_by_desc_def Let_def)

text \<open>
  Claim C10. A successful status patch leaves the users alone and keeps the
  request table row for row: every row keeps its key, owner, goal, amount, monthly
  contribution, risk profile, horizon, notes and creation time, and a row with another
  key is not changed at all.
\<close>

theorem advisor_set_status_frame:
  assumes role: "u_role current_user = ''advisor'' \<or> u_role current_user = ''admin''"
    and found: "find (\<lambda>r. r_id r = rid) (consultation_requests db) = Some req"
  shows "\<exists>out db'. update_request_status rid s current_user now db = (Inr out, db') \<and>
           users db' = users db \<and>
           length (consultation_requests db') = length (consultation_requests db) \<and>
           (\<forall>i < length (consultation_requests db).
              let r = consultation_requests db ! i; r' = consultation_requests db' ! i
              in r_id r' = r_id r \<and> r_user_id r' = r_user_id r \<and> goal r' = goal r \<and>
                 amount r' = amount r \<and> monthly_contribution r' = monthly_contribution r \<and>
                 risk_profile r' = risk_profile r \<and> time_horizon_years r' = time_horizon_years r \<and>
                 r_notes r' = r_notes r \<and> created_at r' = created_at r \<and>
                 (r_id r \<noteq> rid \<longrightarrow> r' = r))"
proof -
  have rid: "r_id req = rid" using find_SomeD [OF found] by simp
  have adv: "require_advisor current_user = Inr current_user"
    using role by (auto simp: require_advisor_def)
  show ?thesis
    by (simp add: update_request_status_def adv found Let_def rid update_row_def set_status_def)
qed

text \<open>
  Claim C10 where the advisor completes Alice's request.
\<close>

theorem advisor_set_status_frame_witness:
  "(u_role carol = ''advisor'' \<or> u_role carol = ''admin'') \<and>
   find (\<lambda>r. r_id r = 1) (consultation_requests db1) = Some req1 \<and>
   (\<exists>out db'. update_request_status 1 completed carol 300 db1 = (Inr out, db') \<and>
           users db' = users db1 \<and>
           length (consultation_requests db') = length (consultation_requests db1) \<and>
           (\<forall>i < length (consultation_requests db1).
              let r = consultation_requests db1 ! i; r' = consultation_requests db' ! i
              in r_id r' = r_id r \<and> r_user_id r' = r_user_id r \<and> goal r' = goal r \<and>
                 amount r' = amount r \<and> monthly_contribution r' = monthly_contribution r \<and>
                 risk_profile r' = risk_profile r \<and> time_horizon_years r' = time_horizon_years r \<and>
                 r_notes r' = r_notes r \<and> created_at r' = created_at r \<and>
                 (r_id r \<noteq> 1 \<longrightarrow> r' = r)))"
proof -
  have role: "u_role carol = ''advisor'' \<or> u_role carol = ''admin''"
    by (simp add: carol_def)
  have found: "find (\<lambda>r. r_id r = 1) (consultation_requests db1) = Some req1"
    by (simp add: db1_eq req1_def)
  show ?thesis
    using advisor_set_status_frame [OF role found, of completed 300] role found
    by simp
qed

end
